theory Spec2Isabelle
  imports Main "HOL-Library.Word"
begin

unbundle bit_operations_syntax

chapter \<open>Control panel for the gravity-reduction rig: model\<close>

text \<open>
  The renderer of the control panel is a set of singleton managers that share a state
  manager, an event bus and the DOM. Each manager is embedded as functions on a record
  holding exactly the state its methods read and write. JavaScript numbers that hold
  command ids, ports and parameter values are integers here (\<open>int\<close>); a DOM element that
  the code tests for \<open>null\<close> before use is an \<open>option\<close>.
\<close>

section \<open>Frame codec\<close>

subsection \<open>Outbound: Int2Byte\<close>

text \<open>
  The README gives the conversion of one parameter:
  \<^verbatim>\<open>bytes[0] = (0xff00 & i) >> 8;  bytes[1] = 0xff & i;\<close>
  JavaScript's bitwise operators work on the low 32 bits of \<open>i\<close>; both masks lie inside
  them, so the result is the same on the unbounded integer.
\<close>

definition int2byte :: "int \<Rightarrow> int list" where
  "int2byte i = [drop_bit 8 (0xff00 AND i), 0xff AND i]"

text \<open>
  Modelled from the spec: the loop of the main process that encodes the whole parameter
  vector is not among the sources. Section 4.1: each value is written big-endian, in slot
  order, with no padding, no length prefix and no checksum.
\<close>

definition encodeParameters :: "int list \<Rightarrow> int list" where
  "encodeParameters vs = concat (map int2byte vs)"

text \<open>
  Modelled from the spec: the reverse codec of section 8, which reads the buffer two bytes
  at a time, high byte first. Production code never decodes an outbound frame. A trailing
  odd byte is not a value and is dropped.
\<close>

fun decodeParameters :: "int list \<Rightarrow> int list" where
  "decodeParameters (hi # lo # rest) = (hi * 256 + lo) # decodeParameters rest"
| "decodeParameters _ = []"

definition exampleParameters :: "int list" where
  "exampleParameters =
     [0, 1, 255, 256, 4660, 65535, 32768, 2, 500, 12, 65280, 7, 1000, 40000, 9, 300]"

subsection \<open>Inbound: status frame\<close>

text \<open>
  Modelled from the spec: \<open>parseReceivedData\<close> of the main process is not among the
  sources. Section 4.1: a buffer of exactly 26 bytes decodes to a status snapshot; bytes 0
  to 4 hold 40 flags, 8 per byte, bit value 1 for true, from the least significant bit to
  the most significant, byte 0 holding flags 0 to 7; byte 5 is a filler and is not read;
  bytes 6 to 25 hold 10 unsigned 16-bit integers, big-endian, in order. A buffer of any
  other length is a \<open>MalformedFrame\<close> and nothing is decoded.
\<close>

datatype frame_error = MalformedFrame

record status_snapshot =
  flags :: "bool list"
  integers :: "nat list"

definition decodeFlags :: "8 word list \<Rightarrow> bool list" where
  "decodeFlags bytes = concat (map (\<lambda>b. map (bit b) [0..<8]) bytes)"

fun decodeIntegers :: "8 word list \<Rightarrow> nat list" where
  "decodeIntegers (hi # lo # rest) = (unat hi * 256 + unat lo) # decodeIntegers rest"
| "decodeIntegers _ = []"

definition decodeStatus :: "8 word list \<Rightarrow> frame_error + status_snapshot" where
  "decodeStatus buf =
     (if length buf \<noteq> 26 then Inl MalformedFrame
      else Inr \<lparr>flags = decodeFlags (take 5 buf), integers = decodeIntegers (drop 6 buf)\<rparr>)"

definition exampleFrame :: "8 word list" where
  "exampleFrame = [0x0e, 0, 0xff, 1, 0x80, 0, 0, 1, 1, 0, 0xff, 0xff, 0, 0, 0, 0, 0, 0, 0, 0, 0, 0, 0, 0, 0, 5]"

section \<open>Events\<close>

text \<open>
  The event bus delivers an event to its listeners synchronously. A listener that is
  part of the model is called where the event is emitted; the events that leave the
  modelled managers are recorded, in order, in a list.
\<close>

datatype event =
    COMMAND_SET int string "string option"
  | CONNECTION_STATUS bool
  | CONNECTION_ERROR string
  | SETTINGS_LOADED
  | SETTINGS_SAVED

section \<open>Command buttons and power switches\<close>

subsection \<open>State\<close>

text \<open>
  A command button (class \<open>btn-command\<close>): its \<open>data-cmd\<close> attribute as \<open>parseInt\<close> reads
  it, its \<open>data-name\<close> attribute, its text, its \<open>disabled\<close> property and whether its class
  list holds \<open>active-command\<close>. The page (index.html) is not among the sources: the
  attributes are taken as given.
\<close>

record button =
  btn_cmd :: int
  btn_name :: "string option"
  btn_text :: string
  btn_disabled :: bool
  active_command :: bool

text \<open>A power switch (a checkbox) with its \<open>data-cmd-on\<close>, \<open>data-cmd-off\<close> and \<open>data-name\<close>.\<close>

record switch =
  checked :: bool
  sw_disabled :: bool
  sw_cmdOn :: int
  sw_cmdOff :: int
  sw_name :: string

text \<open>The container of a switch: the two classes the code adds to and removes from it.\<close>

record switch_group =
  class_disabled :: bool
  class_waiting_ack :: bool

text \<open>
  The state shared by \<open>PowerSwitchesManager\<close> and \<open>CommandButtonsManager\<close>: three keys of
  the state manager, the buttons found by \<open>querySelectorAll('.btn-command')\<close>, the two
  switches, and the elements that each method tests for \<open>null\<close>. Both switches exist:
  \<open>PowerSwitchesManager.init\<close> attaches no listener otherwise. \<open>commandInput\<close> is the value
  of the input \<open>int-9\<close>, \<open>cmdDisplay\<close> the id and the name that make up the text
  \<open>`${commandId} - ${commandName}`\<close>, \<open>loadingIcon\<close> the icon's \<open>style.display\<close>.
\<close>

record panel =
  isConnected :: bool
  waitingForAcknowledgment :: bool
  currentCommand :: int
  commandButtons :: "button list"
  driverSwitch :: switch
  servoSwitch :: switch
  driverGroup :: "switch_group option"
  servoGroup :: "switch_group option"
  loadingIcon :: "string option"
  commandInput :: "int option"
  cmdDisplay :: "(int \<times> string) option"
  emitted :: "event list"

datatype switch_id = Driver | Servo

fun otherSwitchId :: "switch_id \<Rightarrow> switch_id" where
  "otherSwitchId Driver = Servo"
| "otherSwitchId Servo = Driver"

fun switchName :: "switch_id \<Rightarrow> string" where
  "switchName Driver = ''driver''"
| "switchName Servo = ''servo''"

fun switchOf :: "switch_id \<Rightarrow> panel \<Rightarrow> switch" where
  "switchOf Driver s = driverSwitch s"
| "switchOf Servo s = servoSwitch s"

fun groupOf :: "switch_id \<Rightarrow> panel \<Rightarrow> switch_group option" where
  "groupOf Driver s = driverGroup s"
| "groupOf Servo s = servoGroup s"

fun updateSwitch :: "switch_id \<Rightarrow> (switch \<Rightarrow> switch) \<Rightarrow> panel \<Rightarrow> panel" where
  "updateSwitch Driver f s = s\<lparr>driverSwitch := f (driverSwitch s)\<rparr>"
| "updateSwitch Servo f s = s\<lparr>servoSwitch := f (servoSwitch s)\<rparr>"

fun updateGroup :: "switch_id \<Rightarrow> (switch_group \<Rightarrow> switch_group) \<Rightarrow> panel \<Rightarrow> panel" where
  "updateGroup Driver f s = s\<lparr>driverGroup := map_option f (driverGroup s)\<rparr>"
| "updateGroup Servo f s = s\<lparr>servoGroup := map_option f (servoGroup s)\<rparr>"

definition emit :: "event \<Rightarrow> panel \<Rightarrow> panel" where
  "emit e s = s\<lparr>emitted := emitted s @ [e]\<rparr>"

subsection \<open>Methods that both managers define alike\<close>

text \<open>\<open>setWaitingForAcknowledgment(waiting)\<close>, in both classes.\<close>

definition setWaitingForAcknowledgment :: "bool \<Rightarrow> panel \<Rightarrow> panel" where
  "setWaitingForAcknowledgment waiting s =
     s\<lparr>waitingForAcknowledgment := waiting,
       loadingIcon :=
         map_option (\<lambda>_. if waiting then ''inline-block'' else ''none'') (loadingIcon s)\<rparr>"

text \<open>\<open>setCommand(commandId, commandName)\<close>, in both classes.\<close>

definition setCommand :: "int \<Rightarrow> string \<Rightarrow> panel \<Rightarrow> panel" where
  "setCommand commandId commandName s =
     s\<lparr>currentCommand := commandId,
       commandInput := map_option (\<lambda>_. commandId) (commandInput s),
       cmdDisplay := map_option (\<lambda>_. (commandId, commandName)) (cmdDisplay s)\<rparr>"

subsection \<open>PowerSwitchesManager\<close>

definition disableCommandButtons :: "panel \<Rightarrow> panel" where
  "disableCommandButtons s =
     s\<lparr>commandButtons := map (\<lambda>btn. btn\<lparr>btn_disabled := True\<rparr>) (commandButtons s)\<rparr>"

definition disableSwitch :: "switch_id \<Rightarrow> panel \<Rightarrow> panel" where
  "disableSwitch w s =
     updateGroup w (\<lambda>g. g\<lparr>class_disabled := True\<rparr>)
       (updateSwitch w (\<lambda>sw. sw\<lparr>sw_disabled := True\<rparr>) s)"

text \<open>\<open>disableAll()\<close>: the driver switch, then the servo switch.\<close>

definition disableAll :: "panel \<Rightarrow> panel" where
  "disableAll s = disableSwitch Servo (disableSwitch Driver s)"

definition enableSwitch :: "switch_id \<Rightarrow> panel \<Rightarrow> panel" where
  "enableSwitch w s =
     updateGroup w (\<lambda>g. g\<lparr>class_disabled := False, class_waiting_ack := False\<rparr>)
       (updateSwitch w (\<lambda>sw. sw\<lparr>sw_disabled := False\<rparr>) s)"

text \<open>\<open>enableAll()\<close>: each switch is enabled under the test \<open>this.xSwitch && isConnected\<close>.\<close>

definition enableAll :: "panel \<Rightarrow> panel" where
  "enableAll s =
     (let connected = isConnected s;
          s1 = (if connected then enableSwitch Driver s else s)
      in if connected then enableSwitch Servo s1 else s1)"

definition handleConnectionStatus :: "bool \<Rightarrow> panel \<Rightarrow> panel" where
  "handleConnectionStatus connected s = (if connected then enableAll s else disableAll s)"

text \<open>
  \<open>handleSwitchChange(e, switchName, thisSwitch, otherSwitch, thisGroup, otherGroup)\<close>:
  the listener of the \<open>change\<close> event of switch \<open>w\<close>; \<open>e.target\<close> is that switch, and its
  \<open>checked\<close> already holds the position the operator moved it to.
\<close>

definition handleSwitchChange :: "switch_id \<Rightarrow> panel \<Rightarrow> panel" where
  "handleSwitchChange w s =
     (if \<not> isConnected s then updateSwitch w (\<lambda>sw. sw\<lparr>checked := \<not> checked sw\<rparr>) s
      else
        let target = switchOf w s;
            isOn = checked target;
            commandId = (if isOn then sw_cmdOn target else sw_cmdOff target);
            commandName = sw_name target @ '' '' @ (if isOn then ''ON'' else ''OFF'');
            s1 = disableCommandButtons s;
            s2 = disableSwitch (otherSwitchId w) s1;
            s3 = updateGroup w (\<lambda>g. g\<lparr>class_waiting_ack := True\<rparr>) s2;
            s4 = setWaitingForAcknowledgment True s3;
            s5 = setCommand commandId commandName s4
        in emit (COMMAND_SET commandId commandName (Some (switchName w @ ''-switch''))) s5)"

text \<open>
  The operator moving switch \<open>w\<close>: the browser flips \<open>checked\<close>, then dispatches \<open>change\<close>.
\<close>

definition toggleSwitch :: "switch_id \<Rightarrow> panel \<Rightarrow> panel" where
  "toggleSwitch w s = handleSwitchChange w (updateSwitch w (\<lambda>sw. sw\<lparr>checked := \<not> checked sw\<rparr>) s)"

subsection \<open>CommandButtonsManager\<close>

text \<open>
  A button is named by its position in \<open>commandButtons\<close>; \<open>btn !== exceptBtn\<close> compares
  positions. \<open>indexed\<close> pairs every button with its position.
\<close>

definition indexed :: "'a list \<Rightarrow> (nat \<times> 'a) list" where
  "indexed xs = zip [0..<length xs] xs"

text \<open>\<open>setActiveButton(activeBtn)\<close>: the class is removed from all buttons, then added to one.\<close>

definition setActiveButton :: "nat \<Rightarrow> panel \<Rightarrow> panel" where
  "setActiveButton i s =
     (let cleared = map (\<lambda>btn. btn\<lparr>active_command := False\<rparr>) (commandButtons s)
      in s\<lparr>commandButtons := cleared[i := (cleared ! i)\<lparr>active_command := True\<rparr>]\<rparr>)"

definition disableAllButtonsExcept :: "nat \<Rightarrow> panel \<Rightarrow> panel" where
  "disableAllButtonsExcept i s =
     s\<lparr>commandButtons :=
         map (\<lambda>(j, btn). if j \<noteq> i then btn\<lparr>btn_disabled := True\<rparr> else btn)
           (indexed (commandButtons s))\<rparr>"

definition enableAllButtons :: "panel \<Rightarrow> panel" where
  "enableAllButtons s =
     s\<lparr>commandButtons := map (\<lambda>btn. btn\<lparr>btn_disabled := False\<rparr>) (commandButtons s)\<rparr>"

definition disableAllButtons :: "panel \<Rightarrow> panel" where
  "disableAllButtons s =
     s\<lparr>commandButtons := map (\<lambda>btn. btn\<lparr>btn_disabled := True\<rparr>) (commandButtons s)\<rparr>"

definition clearActiveButtons :: "panel \<Rightarrow> panel" where
  "clearActiveButtons s =
     s\<lparr>commandButtons := map (\<lambda>btn. btn\<lparr>active_command := False\<rparr>) (commandButtons s)\<rparr>"

definition clearCommand :: "panel \<Rightarrow> panel" where
  "clearCommand s = setCommand 0 ''None'' s"

text \<open>\<open>btn.dataset.name || btn.textContent\<close>: an absent or empty attribute is falsy.\<close>

definition commandNameOf :: "button \<Rightarrow> string" where
  "commandNameOf btn =
     (case btn_name btn of
        None \<Rightarrow> btn_text btn
      | Some n \<Rightarrow> if n = [] then btn_text btn else n)"

text \<open>
  \<open>handleCommandClick(btn)\<close>, the \<open>click\<close> listener of button \<open>i\<close>. A listener is attached
  to each element of \<open>commandButtons\<close> and to nothing else, so a position outside the list
  has no listener and nothing runs. The event \<open>power-switches:disable\<close> has one listener,
  \<open>disableAll\<close>, registered by \<open>PowerSwitchesManager.init\<close>.
\<close>

definition handleCommandClick :: "nat \<Rightarrow> panel \<Rightarrow> panel" where
  "handleCommandClick i s =
     (if \<not> i < length (commandButtons s) then s
      else if \<not> isConnected s then s
      else
        let btn = commandButtons s ! i;
            commandId = btn_cmd btn;
            commandName = commandNameOf btn;
            s1 = setActiveButton i s;
            s2 = disableAllButtonsExcept i s1;
            s3 = disableAll s2;
            s4 = setWaitingForAcknowledgment True s3;
            s5 = setCommand commandId commandName s4
        in emit (COMMAND_SET commandId commandName None) s5)"

text \<open>
  \<open>handleAcknowledgment()\<close>. The event \<open>power-switches:enable\<close> has one listener,
  \<open>enableAll\<close>.
\<close>

definition handleAcknowledgment :: "panel \<Rightarrow> panel" where
  "handleAcknowledgment s =
     (let s1 = clearActiveButtons s;
          s2 = enableAllButtons s1;
          s3 = enableAll s2;
          s4 = setWaitingForAcknowledgment False s3
      in clearCommand s4)"

subsection \<open>The connection flag\<close>

text \<open>
  \<open>ConnectionManager.handleConnectionStatusUpdate(data)\<close>: \<open>data.connected\<close> and
  \<open>data.error\<close> (absent or empty: falsy).
\<close>

definition handleConnectionStatusUpdate :: "bool \<Rightarrow> string option \<Rightarrow> panel \<Rightarrow> panel" where
  "handleConnectionStatusUpdate connected err s =
     (if connected then emit (CONNECTION_STATUS True) (s\<lparr>isConnected := True\<rparr>)
      else
        let s1 = emit (CONNECTION_STATUS False) (s\<lparr>isConnected := False\<rparr>)
        in case err of
             None \<Rightarrow> s1
           | Some msg \<Rightarrow> if msg = [] then s1 else emit (CONNECTION_ERROR msg) s1)"

text \<open>
  Modelled from the spec: the renderer's entry point, which subscribes the managers to
  \<open>CONNECTION_STATUS\<close>, is not among the sources. Section 6 names the notification
  \<open>connectionStatusChanged(connected, error?)\<close>; here it reaches the power switches
  through \<open>handleConnectionStatus\<close>, the handler the class provides for it.
\<close>

definition connectionStatusChanged :: "bool \<Rightarrow> string option \<Rightarrow> panel \<Rightarrow> panel" where
  "connectionStatusChanged connected err s =
     handleConnectionStatus connected (handleConnectionStatusUpdate connected err s)"

text \<open>
  Modelled from the spec: the code that compares the echoed command of an inbound status
  with the pending one and calls \<open>handleAcknowledgment\<close> is not among the sources. Section
  4.5: on each new status snapshot the echoed integer is compared with the id of the
  pending request; a match resolves it, a mismatch produces no transition.
\<close>

definition onStatusSnapshot :: "int \<Rightarrow> panel \<Rightarrow> panel" where
  "onStatusSnapshot echo s =
     (if waitingForAcknowledgment s \<and> echo = currentCommand s then handleAcknowledgment s
      else s)"

subsection \<open>Issuing a command request\<close>

text \<open>
  The operator issues a command request by clicking a command button or by moving a power
  switch. \<open>requestId\<close> is the id the listener will read: the button's \<open>data-cmd\<close>; for a
  switch that is off and is moved to on its \<open>data-cmd-on\<close>, for one that is on its
  \<open>data-cmd-off\<close>. A click needs a button to click on.
\<close>

datatype operator_action = Click nat | Toggle switch_id

fun issue :: "operator_action \<Rightarrow> panel \<Rightarrow> panel" where
  "issue (Click i) s = handleCommandClick i s"
| "issue (Toggle w) s = toggleSwitch w s"

fun requestId :: "operator_action \<Rightarrow> panel \<Rightarrow> int" where
  "requestId (Click i) s = btn_cmd (commandButtons s ! i)"
| "requestId (Toggle w) s =
     (if checked (switchOf w s) then sw_cmdOff (switchOf w s) else sw_cmdOn (switchOf w s))"

fun issuable :: "operator_action \<Rightarrow> panel \<Rightarrow> bool" where
  "issuable (Click i) s = (i < length (commandButtons s))"
| "issuable (Toggle w) s = True"

text \<open>
  What the panel can be asked to handle between a request and its acknowledgment: a
  further request, an update of the connection flag by
  \<open>ConnectionManager.handleConnectionStatusUpdate\<close>, the events
  \<open>power-switches:disable\<close> and \<open>power-switches:enable\<close> (\<open>disableAll\<close> and \<open>enableAll\<close>),
  and \<open>handleConnectionStatus\<close> with either argument. The browser dispatches no event for
  a disabled control; the listeners are modelled as they are written, for enabled and
  disabled controls alike. \<open>reenables\<close> holds of the two steps that run \<open>enableAll\<close>.
\<close>

datatype pending_step =
    Request operator_action
  | FlagUpdate bool "string option"
  | SwitchesOff
  | SwitchesOn
  | StatusNotified bool

fun step :: "pending_step \<Rightarrow> panel \<Rightarrow> panel" where
  "step (Request a) s = issue a s"
| "step (FlagUpdate connected err) s = handleConnectionStatusUpdate connected err s"
| "step SwitchesOff s = disableAll s"
| "step SwitchesOn s = enableAll s"
| "step (StatusNotified connected) s = handleConnectionStatus connected s"


definition run :: "pending_step list \<Rightarrow> panel \<Rightarrow> panel" where
  "run steps s = fold step steps s"

subsection \<open>The power switches while disconnected\<close>

definition switchesOffWhileDisconnected :: "panel \<Rightarrow> bool" where
  "switchesOffWhileDisconnected s =
     (\<not> isConnected s \<longrightarrow> sw_disabled (driverSwitch s) \<and> sw_disabled (servoSwitch s))"

text \<open>
  The operations on the power switches: \<open>enableAll\<close>, \<open>disableAll\<close>,
  \<open>handleConnectionStatus\<close> with either argument, and a change of the connection flag
  together with its notification. A state is reached from \<open>s0\<close> by a list of them.
\<close>

datatype switch_op =
    EnableAll
  | DisableAll
  | HandleConnectionStatus bool
  | ConnectionStatusChanged bool "string option"

fun applySwitchOp :: "switch_op \<Rightarrow> panel \<Rightarrow> panel" where
  "applySwitchOp EnableAll s = enableAll s"
| "applySwitchOp DisableAll s = disableAll s"
| "applySwitchOp (HandleConnectionStatus connected) s = handleConnectionStatus connected s"
| "applySwitchOp (ConnectionStatusChanged connected err) s =
     connectionStatusChanged connected err s"

definition applySwitchOps :: "switch_op list \<Rightarrow> panel \<Rightarrow> panel" where
  "applySwitchOps ops s = fold applySwitchOp ops s"

subsection \<open>Example states\<close>

definition exampleButtons :: "button list" where
  "exampleButtons =
     [\<lparr>btn_cmd = 5, btn_name = Some ''Start Experiment'', btn_text = ''Start'',
        btn_disabled = False, active_command = False\<rparr>,
      \<lparr>btn_cmd = 7, btn_name = None, btn_text = ''Stop'',
        btn_disabled = False, active_command = False\<rparr>,
      \<lparr>btn_cmd = 12, btn_name = Some ''Command 12'', btn_text = ''Cmd 12'',
        btn_disabled = False, active_command = False\<rparr>]"

definition examplePanel :: panel where
  "examplePanel =
     \<lparr>isConnected = True, waitingForAcknowledgment = False, currentCommand = 0,
      commandButtons = exampleButtons,
      driverSwitch = \<lparr>checked = False, sw_disabled = False, sw_cmdOn = 1, sw_cmdOff = 2,
                       sw_name = ''Driver Power''\<rparr>,
      servoSwitch = \<lparr>checked = False, sw_disabled = False, sw_cmdOn = 3, sw_cmdOff = 4,
                      sw_name = ''Servo Module''\<rparr>,
      driverGroup = Some \<lparr>class_disabled = False, class_waiting_ack = False\<rparr>,
      servoGroup = Some \<lparr>class_disabled = False, class_waiting_ack = False\<rparr>,
      loadingIcon = Some ''none'', commandInput = Some 0, cmdDisplay = Some (0, ''None''),
      emitted = []\<rparr>"

text \<open>The same page while disconnected.\<close>

definition exampleDisconnected :: panel where
  "exampleDisconnected = examplePanel\<lparr>isConnected := False\<rparr>"

text \<open>Command 5 issued by the first button; then the connection is lost.\<close>

definition examplePending :: panel where
  "examplePending = handleCommandClick 0 examplePanel"

definition exampleLostWhilePending :: panel where
  "exampleLostWhilePending = handleConnectionStatusUpdate False None examplePending"

text \<open>
  While a request is pending: the same button again, the connection lost, a toggle; and
  the same with every step that can follow a request.
\<close>

definition exampleSwitchOps :: "switch_op list" where
  "exampleSwitchOps = [ConnectionStatusChanged False None, EnableAll, HandleConnectionStatus True]"



section \<open>Sticky command requests\<close>

text \<open>
  Modelled from the spec: the controls that issue axis movements (X+/X-/Y+/Y-/Z+/Z-, which
  the README says stay highlighted while active) and the code that resolves their requests
  are not among the sources. Section 3: a command request is an id (unsigned 16-bit), a
  label and a sticky flag; section 9: the classification is supplied by the caller of
  \<open>issueCommand\<close>, not inferred from the id. Section 4.5: the engine is Idle, Pending on a
  request, or Acknowledged (section 3: a sticky request is then retained as the active
  sticky command). Which controls conflict with a request, and which are safe to use
  while a sticky command is active, the spec leaves to the caller: they are parameters.
\<close>

record command_request =
  req_id :: "16 word"
  req_label :: string
  sticky :: bool

datatype engine_phase = Idle | Pending command_request | Acknowledged command_request

datatype control = CommandButton nat | PowerSwitch switch_id

record control_policy =
  conflicting :: "command_request \<Rightarrow> control set"
  safeWhileActive :: "command_request \<Rightarrow> control set"

record engine =
  phase :: engine_phase
  commandSlot :: "16 word"
  activeRequest :: "command_request option"
  disabledControls :: "control set"


text \<open>
  Modelled from the spec: section 4.5, the resolution of a request. One-shot: the slot is
  reset to 0, the active state cleared, every disabled control re-enabled, the engine Idle.
  Sticky: the slot and the active state are kept, and the controls that are safe to use
  concurrently are re-enabled.
\<close>

definition resolveRequest :: "control_policy \<Rightarrow> command_request \<Rightarrow> engine \<Rightarrow> engine" where
  "resolveRequest policy request e =
     (if sticky request
      then e\<lparr>phase := Acknowledged request,
             disabledControls := disabledControls e - safeWhileActive policy request\<rparr>
      else e\<lparr>phase := Idle, commandSlot := 0, activeRequest := None, disabledControls := {}\<rparr>)"

text \<open>
  Modelled from the spec: section 4.5, Pending to Acknowledged. On each status snapshot the
  echoed integer is compared with the id of the pending request; a match resolves it, and
  there is no mismatch path.
\<close>

definition statusUpdated :: "control_policy \<Rightarrow> 16 word \<Rightarrow> engine \<Rightarrow> engine" where
  "statusUpdated policy echo e =
     (case phase e of
        Pending request \<Rightarrow> if echo = req_id request then resolveRequest policy request e else e
      | _ \<Rightarrow> e)"





section \<open>Connection manager\<close>

text \<open>
  \<open>ConnectionManager.connect\<close> and the two methods it calls. The main process is not among
  the sources: the two calls into it, \<open>electronAPI.tcpConnect\<close> and
  \<open>electronAPI.udpConnect\<close>, are parameters. Each awaited call either resolves to a result
  object with \<open>success\<close> and \<open>message\<close>, or rejects; a call that cannot be made at all
  is a rejection too. A JavaScript value that may be \<open>undefined\<close> or \<open>NaN\<close> is an
  \<open>option\<close>. Log lines are not part of the model; the logger and the listeners of the
  event bus are taken not to throw.
\<close>

record connect_result =
  success :: bool
  message :: string

text \<open>
  What a \<open>throw\<close> or a rejected promise carries is any JavaScript value: \<open>null\<close> or
  \<open>undefined\<close>, which have no properties, or a value whose \<open>message\<close> property can be read
  (an \<open>Error\<close>, or any other object or primitive; \<open>None\<close> when the property is absent).
  Reading a property of \<open>null\<close> or \<open>undefined\<close> raises a \<open>TypeError\<close>.
\<close>

datatype js_thrown = Nullish | Thrown "string option"

datatype type_error = CannotReadMessage

record connection_settings =
  host :: "string option"
  port :: "int option"
  clientPort :: "int option"
  listeningPort :: "int option"
  targetHost :: "string option"
  targetPort :: "int option"

record electron_api =
  tcpConnect :: "string option \<Rightarrow> int option \<Rightarrow> int option \<Rightarrow> js_thrown + connect_result"
  udpConnect :: "int option \<Rightarrow> string option \<Rightarrow> int option \<Rightarrow> js_thrown + connect_result"

definition truthyString :: "string option \<Rightarrow> bool" where
  "truthyString v = (case v of None \<Rightarrow> False | Some str \<Rightarrow> str \<noteq> [])"

definition truthyNumber :: "int option \<Rightarrow> bool" where
  "truthyNumber v = (case v of None \<Rightarrow> False | Some n \<Rightarrow> n \<noteq> 0)"

text \<open>\<open>connectTCP(settings)\<close>: \<open>throw new Error(...)\<close> or the awaited call.\<close>

definition connectTCP :: "electron_api \<Rightarrow> connection_settings \<Rightarrow> js_thrown + connect_result" where
  "connectTCP api settings =
     (if \<not> truthyString (host settings) \<or> \<not> truthyNumber (port settings)
      then Inl (Thrown (Some ''Invalid TCP host or port''))
      else tcpConnect api (host settings) (port settings) (clientPort settings))"

definition connectUDP :: "electron_api \<Rightarrow> connection_settings \<Rightarrow> js_thrown + connect_result" where
  "connectUDP api settings =
     (if \<not> truthyNumber (listeningPort settings) \<or> \<not> truthyString (targetHost settings) \<or>
         \<not> truthyNumber (targetPort settings)
      then Inl (Thrown (Some ''Invalid UDP settings''))
      else udpConnect api (listeningPort settings) (targetHost settings) (targetPort settings))"

text \<open>
  \<open>connect(settings)\<close>, with \<open>protocol\<close> the value of the state manager's
  \<open>currentProtocol\<close>. The result is what the \<open>async\<close> function resolves to, or the error it
  rejects with, and the events it has emitted. The \<open>catch\<close> block first evaluates
  \<open>error.message || 'Unknown error'\<close>: for \<open>null\<close> or \<open>undefined\<close> that read raises a
  \<open>TypeError\<close> inside the \<open>catch\<close> block, nothing is emitted and \<open>connect\<close> rejects; an
  absent or empty \<open>message\<close> is falsy.
\<close>

definition connect ::
  "electron_api \<Rightarrow> string \<Rightarrow> connection_settings \<Rightarrow> (type_error + connect_result) \<times> event list" where
  "connect api protocol settings =
     (case (if protocol = ''tcp'' then connectTCP api settings else connectUDP api settings) of
        Inr result \<Rightarrow>
          if success result then (Inr result, [CONNECTION_STATUS True])
          else (Inr result, [CONNECTION_ERROR (message result)])
      | Inl Nullish \<Rightarrow> (Inl CannotReadMessage, [])
      | Inl (Thrown msg) \<Rightarrow>
          let errorMsg = (case msg of
                            None \<Rightarrow> ''Unknown error''
                          | Some m \<Rightarrow> if m = [] then ''Unknown error'' else m)
          in (Inr \<lparr>success = False, message = errorMsg\<rparr>, [CONNECTION_ERROR errorMsg]))"

text \<open>
  The settings with which no connection is attempted, in the words of the claim: TCP with
  a missing or empty host or a missing or zero port; UDP with a missing or zero listening
  port, a missing or empty target host, or a missing or zero target port.
  \<open>underlyingConnect\<close> is the call into the main process that \<open>connect\<close> makes when the
  settings pass, and \<open>invalidMessage\<close> the message of the error thrown when they do not.
\<close>

definition invalidSettings :: "string \<Rightarrow> connection_settings \<Rightarrow> bool" where
  "invalidSettings protocol settings =
     (if protocol = ''tcp''
      then host settings = None \<or> host settings = Some [] \<or> port settings = None \<or> port settings = Some 0
      else listeningPort settings = None \<or> listeningPort settings = Some 0 \<or>
           targetHost settings = None \<or> targetHost settings = Some [] \<or>
           targetPort settings = None \<or> targetPort settings = Some 0)"

definition underlyingConnect :: "electron_api \<Rightarrow> string \<Rightarrow> connection_settings \<Rightarrow> js_thrown + connect_result" where
  "underlyingConnect api protocol settings =
     (if protocol = ''tcp'' then tcpConnect api (host settings) (port settings) (clientPort settings)
      else udpConnect api (listeningPort settings) (targetHost settings) (targetPort settings))"

definition invalidMessage :: "string \<Rightarrow> string" where
  "invalidMessage protocol =
     (if protocol = ''tcp'' then ''Invalid TCP host or port'' else ''Invalid UDP settings'')"






section \<open>Settings manager\<close>

subsection \<open>Storage keys\<close>

text \<open>
  The template literal \<open>`int-${i}`\<close>: the decimal digits of \<open>i\<close> after the prefix.
\<close>

definition digitChar :: "nat \<Rightarrow> char" where
  "digitChar d = ''0123456789'' ! d"

function showNat :: "nat \<Rightarrow> string" where
  "showNat n = (if n < 10 then [digitChar n] else showNat (n div 10) @ [digitChar (n mod 10)])"
  by pat_completeness auto
termination
  by (relation "measure id") auto

definition intKey :: "nat \<Rightarrow> string" where
  "intKey i = ''int-'' @ showNat i"

subsection \<open>State\<close>

text \<open>
  \<open>localStorage\<close>; the members of the \<open>elements\<close> object, each \<open>None\<close> when it is absent,
  else the element's \<open>checked\<close>, \<open>value\<close> or \<open>style.display\<close>; the inputs that
  \<open>document.getElementById(`int-${i}`)\<close> finds; the two fields of the manager; the three
  keys of the state manager that it writes; and the events it emits.
\<close>

record settings_page =
  localStorage :: "string \<Rightarrow> string option"
  protocolTcpRadio :: "bool option"
  protocolUdpRadio :: "bool option"
  tcpSettingsSection :: "string option"
  udpSettingsSection :: "string option"
  tcpHostInput :: "string option"
  tcpPortInput :: "string option"
  tcpClientPortInput :: "string option"
  udpListeningPortInput :: "string option"
  udpTargetHostInput :: "string option"
  udpTargetPortInput :: "string option"
  intInputs :: "nat \<Rightarrow> string option"
  autoSendToggle :: "bool option"
  debugModeToggle :: "bool option"
  sendLatencyInput :: "string option"
  currentProtocol :: string
  sendLatencyMs :: "int option"
  sm_currentProtocol :: string
  sm_debugModeEnabled :: bool
  sm_sendLatencyMs :: "int option"
  settingsEvents :: "event list"

definition setItem :: "string \<Rightarrow> string \<Rightarrow> settings_page \<Rightarrow> settings_page" where
  "setItem key v s = s\<lparr>localStorage := (localStorage s)(key \<mapsto> v)\<rparr>"

definition boolToString :: "bool \<Rightarrow> string" where
  "boolToString b = (if b then ''true'' else ''false'')"

text \<open>
  \<open>ProtocolHandler.updateProtocolUI(elements)\<close>, the function a caller of \<open>loadSettings\<close>
  can pass as the member \<open>updateProtocolUI\<close>.
\<close>

definition updateProtocolUI :: "settings_page \<Rightarrow> settings_page" where
  "updateProtocolUI s =
     (if tcpSettingsSection s = None \<or> udpSettingsSection s = None then s
      else if sm_currentProtocol s = ''tcp''
      then s\<lparr>tcpSettingsSection := Some ''block'', udpSettingsSection := Some ''none'',
             protocolTcpRadio := map_option (\<lambda>_. True) (protocolTcpRadio s)\<rparr>
      else s\<lparr>tcpSettingsSection := Some ''none'', udpSettingsSection := Some ''block'',
             protocolUdpRadio := map_option (\<lambda>_. True) (protocolUdpRadio s)\<rparr>)"

subsection \<open>loadSettings\<close>

text \<open>
  \<open>loadSettings(elements)\<close>, block by block. \<open>callback\<close> is \<open>elements.updateProtocolUI\<close>,
  any function on the state, and \<open>parseInt\<close> is JavaScript's. A saved string is falsy when
  it is empty. The loop over the integer parameters runs \<open>i\<close> from 0 to 15.
\<close>

definition loadProtocol :: "(settings_page \<Rightarrow> settings_page) option \<Rightarrow> settings_page \<Rightarrow> settings_page" where
  "loadProtocol callback s =
     (case localStorage s ''protocol'' of
        None \<Rightarrow> s
      | Some savedProtocol \<Rightarrow>
          if savedProtocol = ''tcp'' \<or> savedProtocol = ''udp'' then
            let s1 = s\<lparr>currentProtocol := savedProtocol, sm_currentProtocol := savedProtocol\<rparr>
            in if protocolTcpRadio s1 \<noteq> None \<and> protocolUdpRadio s1 \<noteq> None then
                 let s2 = (if savedProtocol = ''tcp'' then s1\<lparr>protocolTcpRadio := Some True\<rparr>
                           else s1\<lparr>protocolUdpRadio := Some True\<rparr>)
                 in (case callback of None \<Rightarrow> s2 | Some f \<Rightarrow> f s2)
               else s1
          else s)"

definition restoreInput ::
  "string \<Rightarrow> (settings_page \<Rightarrow> string option) \<Rightarrow> (string \<Rightarrow> settings_page \<Rightarrow> settings_page) \<Rightarrow>
   settings_page \<Rightarrow> settings_page" where
  "restoreInput key input assign s =
     (if input s = None then s
      else case localStorage s key of
             None \<Rightarrow> s
           | Some saved \<Rightarrow> if saved = [] then s else assign saved s)"

definition loadIntegerParameter :: "nat \<Rightarrow> settings_page \<Rightarrow> settings_page" where
  "loadIntegerParameter i s =
     (if intInputs s i \<noteq> None \<and> i \<noteq> 9 then
        (case localStorage s (intKey i) of
           None \<Rightarrow> s
         | Some savedValue \<Rightarrow> s\<lparr>intInputs := (intInputs s)(i := Some savedValue)\<rparr>)
      else s)"

definition loadAutoSend :: "settings_page \<Rightarrow> settings_page" where
  "loadAutoSend s =
     (if autoSendToggle s = None then s
      else case localStorage s ''auto-send-enabled'' of
             None \<Rightarrow> s
           | Some savedAutoSend \<Rightarrow> s\<lparr>autoSendToggle := Some (savedAutoSend = ''true'')\<rparr>)"

definition loadDebugMode :: "settings_page \<Rightarrow> settings_page" where
  "loadDebugMode s =
     (if debugModeToggle s = None then s
      else case localStorage s ''debug-mode-enabled'' of
             None \<Rightarrow> s
           | Some savedDebugMode \<Rightarrow>
               s\<lparr>debugModeToggle := Some (savedDebugMode = ''true''),
                 sm_debugModeEnabled := (savedDebugMode = ''true'')\<rparr>)"

definition loadSendLatency :: "(string \<Rightarrow> int option) \<Rightarrow> settings_page \<Rightarrow> settings_page" where
  "loadSendLatency parseInt s =
     (if sendLatencyInput s = None then s
      else case localStorage s ''send-latency-ms'' of
             None \<Rightarrow> s
           | Some savedLatency \<Rightarrow>
               s\<lparr>sendLatencyInput := Some savedLatency, sendLatencyMs := parseInt savedLatency,
                 sm_sendLatencyMs := parseInt savedLatency\<rparr>)"

definition loadSettings ::
  "(string \<Rightarrow> int option) \<Rightarrow> (settings_page \<Rightarrow> settings_page) option \<Rightarrow> settings_page \<Rightarrow> settings_page" where
  "loadSettings parseInt callback s =
     (let s1 = loadProtocol callback s;
          s2 = restoreInput ''tcp-host'' tcpHostInput (\<lambda>v t. t\<lparr>tcpHostInput := Some v\<rparr>) s1;
          s3 = restoreInput ''tcp-port'' tcpPortInput (\<lambda>v t. t\<lparr>tcpPortInput := Some v\<rparr>) s2;
          s4 = restoreInput ''tcp-client-port'' tcpClientPortInput
                 (\<lambda>v t. t\<lparr>tcpClientPortInput := Some v\<rparr>) s3;
          s5 = restoreInput ''udp-listening-port'' udpListeningPortInput
                 (\<lambda>v t. t\<lparr>udpListeningPortInput := Some v\<rparr>) s4;
          s6 = restoreInput ''udp-target-host'' udpTargetHostInput
                 (\<lambda>v t. t\<lparr>udpTargetHostInput := Some v\<rparr>) s5;
          s7 = restoreInput ''udp-target-port'' udpTargetPortInput
                 (\<lambda>v t. t\<lparr>udpTargetPortInput := Some v\<rparr>) s6;
          s8 = fold loadIntegerParameter [0..<16] s7;
          s9 = loadAutoSend s8;
          s10 = loadDebugMode s9;
          s11 = loadSendLatency parseInt s10
      in s11\<lparr>settingsEvents := settingsEvents s11 @ [SETTINGS_LOADED]\<rparr>)"

subsection \<open>saveSettings\<close>

definition saveInput :: "string \<Rightarrow> string option \<Rightarrow> settings_page \<Rightarrow> settings_page" where
  "saveInput key input s = (case input of None \<Rightarrow> s | Some v \<Rightarrow> setItem key v s)"

definition saveIntegerParameter :: "nat \<Rightarrow> settings_page \<Rightarrow> settings_page" where
  "saveIntegerParameter i s =
     (case intInputs s i of
        None \<Rightarrow> s
      | Some v \<Rightarrow> if i \<noteq> 9 then setItem (intKey i) v s else s)"

definition saveSettings :: "settings_page \<Rightarrow> settings_page" where
  "saveSettings s =
     (let s1 = setItem ''protocol'' (currentProtocol s) s;
          s2 = saveInput ''tcp-host'' (tcpHostInput s1) s1;
          s3 = saveInput ''tcp-port'' (tcpPortInput s2) s2;
          s4 = saveInput ''tcp-client-port'' (tcpClientPortInput s3) s3;
          s5 = saveInput ''udp-listening-port'' (udpListeningPortInput s4) s4;
          s6 = saveInput ''udp-target-host'' (udpTargetHostInput s5) s5;
          s7 = saveInput ''udp-target-port'' (udpTargetPortInput s6) s6;
          s8 = fold saveIntegerParameter [0..<16] s7;
          s9 = saveInput ''auto-send-enabled'' (map_option boolToString (autoSendToggle s8)) s8;
          s10 = saveInput ''debug-mode-enabled'' (map_option boolToString (debugModeToggle s9)) s9;
          s11 = saveInput ''send-latency-ms'' (sendLatencyInput s10) s10
      in s11\<lparr>settingsEvents := settingsEvents s11 @ [SETTINGS_SAVED]\<rparr>)"

subsection \<open>Example page\<close>

definition examplePage :: settings_page where
  "examplePage =
     \<lparr>localStorage = [''protocol'' \<mapsto> ''udp'', ''int-3'' \<mapsto> ''7'', ''int-9'' \<mapsto> ''13''],
      protocolTcpRadio = Some True, protocolUdpRadio = Some False,
      tcpSettingsSection = Some ''block'', udpSettingsSection = Some ''none'',
      tcpHostInput = Some ''localhost'', tcpPortInput = Some ''8080'',
      tcpClientPortInput = None, udpListeningPortInput = Some ''8081'',
      udpTargetHostInput = Some ''localhost'', udpTargetPortInput = Some ''8080'',
      intInputs = (\<lambda>i. if i < 16 then Some ''42'' else None),
      autoSendToggle = Some True, debugModeToggle = None, sendLatencyInput = Some ''20'',
      currentProtocol = ''tcp'', sendLatencyMs = Some 20,
      sm_currentProtocol = ''tcp'', sm_debugModeEnabled = False, sm_sendLatencyMs = Some 20,
      settingsEvents = []\<rparr>"

definition exampleParseInt :: "string \<Rightarrow> int option" where
  "exampleParseInt str = (if str = ''20'' then Some 20 else None)"

chapter \<open>Properties\<close>

section \<open>Frame codec\<close>

lemma high_byte_mask:
  assumes "0 \<le> v" and "v \<le> 65535"
  shows "drop_bit 8 (0xff00 AND v) = drop_bit 8 (v::int)"
proof -
  have "drop_bit 8 (0xff00 AND v) = drop_bit 8 (0xff00::int) AND drop_bit 8 v"
    by (simp only: drop_bit_and)
  also have "drop_bit 8 (0xff00::int) = mask 8"
    by (simp add: mask_eq_exp_minus_1)
  also have "mask 8 AND drop_bit 8 v = take_bit 8 (drop_bit 8 v)"
    by (simp add: take_bit_eq_mask and.commute)
  also have "\<dots> = drop_bit 8 v"
    using assms by (simp add: take_bit_eq_mod drop_bit_eq_div)
  finally show ?thesis .
qed

lemma low_byte_mod: "0xff AND (v::int) = v mod 256"
proof -
  have "(0xff::int) = mask 8"
    by (simp add: mask_eq_exp_minus_1)
  then have "0xff AND v = take_bit 8 v"
    by (simp add: take_bit_eq_mask and.commute)
  then show ?thesis
    by (simp add: take_bit_eq_mod)
qed

lemma int2byte_shift:
  assumes "0 \<le> v" and "v \<le> 65535"
  shows "int2byte v = [drop_bit 8 v, v AND 0xff]"
proof -
  have "0xff AND v = v AND 0xff"
    by (rule and.commute)
  then show ?thesis
    unfolding int2byte_def by (simp only: high_byte_mask[OF assms])
qed

lemma int2byte_div_mod:
  assumes "0 \<le> v" and "v \<le> 65535"
  shows "int2byte v = [v div 256, v mod 256]"
proof -
  have "int2byte v = [drop_bit 8 v, v mod 256]"
    unfolding int2byte_def by (simp only: high_byte_mask[OF assms] low_byte_mod)
  then show ?thesis
    by (simp add: drop_bit_eq_div)
qed

lemma length_encodeParameters: "length (encodeParameters vs) = 2 * length vs"
  by (induction vs) (simp_all add: encodeParameters_def int2byte_def)

lemma encodeParameters_Cons: "encodeParameters (v # vs) = int2byte v @ encodeParameters vs"
  by (simp add: encodeParameters_def)

lemma nth_encodeParameters:
  "k < length vs \<Longrightarrow>
     encodeParameters vs ! (2 * k) = int2byte (vs ! k) ! 0 \<and>
     encodeParameters vs ! (2 * k + 1) = int2byte (vs ! k) ! 1"
proof (induction vs arbitrary: k)
  case Nil
  then show ?case by simp
next
  case (Cons v vs)
  show ?case
  proof (cases k)
    case 0
    then show ?thesis
      by (simp add: encodeParameters_Cons int2byte_def)
  next
    case (Suc j)
    with Cons.prems have "j < length vs" by simp
    from Cons.IH[OF this] Suc show ?thesis
      by (simp add: encodeParameters_Cons int2byte_def)
  qed
qed

lemma bytes_encodeParameters:
  "\<forall>v\<in>set vs. 0 \<le> v \<and> v \<le> 65535 \<Longrightarrow> \<forall>b\<in>set (encodeParameters vs). 0 \<le> b \<and> b \<le> 255"
proof (induction vs)
  case Nil
  then show ?case by (simp add: encodeParameters_def)
next
  case (Cons v vs)
  then have v: "0 \<le> v" "v \<le> 65535" by simp_all
  have "0 \<le> v div 256" "v div 256 \<le> 255" "0 \<le> v mod 256" "v mod 256 \<le> 255"
    using v by simp_all
  with Cons show ?case
    by (simp add: encodeParameters_Cons int2byte_div_mod[OF v])
qed

lemma decode_encodeParameters:
  "\<forall>v\<in>set vs. 0 \<le> v \<and> v \<le> 65535 \<Longrightarrow> decodeParameters (encodeParameters vs) = vs"
proof (induction vs)
  case Nil
  show ?case by (simp add: encodeParameters_def)
next
  case (Cons v vs)
  then have v: "0 \<le> v" "v \<le> 65535" by simp_all
  from Cons show ?case
    by (simp add: encodeParameters_Cons int2byte_div_mod[OF v])
qed

text \<open>
  Claim C2. A parameter vector of 16 values, each between 0 and 65535, is encoded into
  exactly 32 bytes: slot \<open>k\<close> occupies bytes \<open>2k\<close> and \<open>2k+1\<close>, the high byte
  (\<open>value >> 8\<close>) first and the low byte (\<open>value & 0xff\<close>) second, every byte between 0
  and 255, and the big-endian reverse decode returns the 16 original values.
\<close>

theorem encode_big_endian_roundtrip:
  assumes "length vs = 16" and "\<forall>v\<in>set vs. 0 \<le> v \<and> v \<le> 65535"
  shows "length (encodeParameters vs) = 32 \<and>
         (\<forall>k<16. encodeParameters vs ! (2 * k) = drop_bit 8 (vs ! k) \<and>
                  encodeParameters vs ! (2 * k + 1) = (vs ! k) AND 0xff) \<and>
         (\<forall>b\<in>set (encodeParameters vs). 0 \<le> b \<and> b \<le> 255) \<and>
         decodeParameters (encodeParameters vs) = vs"
proof (intro conjI allI impI)
  show "length (encodeParameters vs) = 32"
    using assms(1) by (simp add: length_encodeParameters)
next
  fix k :: nat
  assume k: "k < 16"
  then have range: "0 \<le> vs ! k" "vs ! k \<le> 65535"
    using assms by simp_all
  from k assms(1) have "k < length vs" by simp
  from nth_encodeParameters[OF this]
  show "encodeParameters vs ! (2 * k) = drop_bit 8 (vs ! k)"
    and "encodeParameters vs ! (2 * k + 1) = (vs ! k) AND 0xff"
    by (simp_all only: int2byte_shift[OF range] nth_Cons_0 One_nat_def nth_Cons_Suc)
next
  show "\<forall>b\<in>set (encodeParameters vs). 0 \<le> b \<and> b \<le> 255"
    using assms(2) by (rule bytes_encodeParameters)
next
  show "decodeParameters (encodeParameters vs) = vs"
    using assms(2) by (rule decode_encodeParameters)
qed

theorem encode_big_endian_roundtrip_witness:
  "length exampleParameters = 16 \<and>
   encodeParameters exampleParameters =
     [0, 0, 0, 1, 0, 255, 1, 0, 18, 52, 255, 255, 128, 0, 0, 2,
      1, 244, 0, 12, 255, 0, 0, 7, 3, 232, 156, 64, 0, 9, 1, 44] \<and>
   length (encodeParameters exampleParameters) = 32 \<and>
   decodeParameters (encodeParameters exampleParameters) = exampleParameters"
proof -
  have len: "length exampleParameters = 16"
    by (simp add: exampleParameters_def)
  have range: "\<forall>v\<in>set exampleParameters. 0 \<le> v \<and> v \<le> 65535"
    by (simp add: exampleParameters_def)
  have enc: "encodeParameters exampleParameters =
     [0, 0, 0, 1, 0, 255, 1, 0, 18, 52, 255, 255, 128, 0, 0, 2,
      1, 244, 0, 12, 255, 0, 0, 7, 3, 232, 156, 64, 0, 9, 1, 44]"
    by (simp add: exampleParameters_def encodeParameters_def int2byte_def)
  from encode_big_endian_roundtrip[OF len range] len enc show ?thesis
    by simp
qed

section \<open>Command buttons and power switches\<close>

subsection \<open>What each operation does to the state\<close>

lemmas panel_defs = handleCommandClick_def handleSwitchChange_def toggleSwitch_def
  handleAcknowledgment_def clearCommand_def setCommand_def setWaitingForAcknowledgment_def
  enableAll_def enableSwitch_def disableAll_def disableSwitch_def enableAllButtons_def
  clearActiveButtons_def disableCommandButtons_def disableAllButtonsExcept_def setActiveButton_def
  emit_def handleConnectionStatus_def handleConnectionStatusUpdate_def connectionStatusChanged_def

lemma nth_indexed: "j < length xs \<Longrightarrow> indexed xs ! j = (j, xs ! j)"
  by (simp add: indexed_def)

lemma length_indexed: "length (indexed xs) = length xs"
  by (simp add: indexed_def)

lemma click_buttons:
  "isConnected s \<Longrightarrow> i < length (commandButtons s) \<Longrightarrow>
   commandButtons (handleCommandClick i s) =
     map (\<lambda>(j, btn). if j = i then btn\<lparr>active_command := True\<rparr>
                       else btn\<lparr>active_command := False, btn_disabled := True\<rparr>)
       (indexed (commandButtons s))"
  by (auto simp add: panel_defs Let_def length_indexed nth_indexed nth_list_update intro!: nth_equalityI)

lemma click_fields:
  "isConnected s \<Longrightarrow> i < length (commandButtons s) \<Longrightarrow>
   currentCommand (handleCommandClick i s) = btn_cmd (commandButtons s ! i) \<and>
   commandInput (handleCommandClick i s) = map_option (\<lambda>_. btn_cmd (commandButtons s ! i)) (commandInput s) \<and>
   waitingForAcknowledgment (handleCommandClick i s) \<and>
   isConnected (handleCommandClick i s) \<and>
   sw_disabled (driverSwitch (handleCommandClick i s)) \<and>
   sw_disabled (servoSwitch (handleCommandClick i s))"
  by (simp add: panel_defs Let_def)

lemma change_fields:
  "isConnected s \<Longrightarrow>
   currentCommand (handleSwitchChange w s) =
     (if checked (switchOf w s) then sw_cmdOn (switchOf w s) else sw_cmdOff (switchOf w s)) \<and>
   commandInput (handleSwitchChange w s) =
     map_option (\<lambda>_. if checked (switchOf w s) then sw_cmdOn (switchOf w s)
                      else sw_cmdOff (switchOf w s)) (commandInput s) \<and>
   waitingForAcknowledgment (handleSwitchChange w s) \<and>
   isConnected (handleSwitchChange w s) \<and>
   commandButtons (handleSwitchChange w s) = map (\<lambda>btn. btn\<lparr>btn_disabled := True\<rparr>) (commandButtons s) \<and>
   sw_disabled (switchOf (otherSwitchId w) (handleSwitchChange w s)) \<and>
   switchOf w (handleSwitchChange w s) = switchOf w s"
  by (cases w) (simp_all add: panel_defs Let_def)


lemma updateSwitch_frame [simp]:
  "isConnected (updateSwitch w f s) = isConnected s"
  "waitingForAcknowledgment (updateSwitch w f s) = waitingForAcknowledgment s"
  "currentCommand (updateSwitch w f s) = currentCommand s"
  "commandButtons (updateSwitch w f s) = commandButtons s"
  "commandInput (updateSwitch w f s) = commandInput s"
  "groupOf v (updateSwitch w f s) = groupOf v s"
  "switchOf v (updateSwitch w f s) = (if v = w then f (switchOf v s) else switchOf v s)"
  by (cases w; cases v; simp)+

lemma flip_twice:
  "updateSwitch w (\<lambda>sw. sw\<lparr>checked := \<not> checked sw\<rparr>)
     (updateSwitch w (\<lambda>sw. sw\<lparr>checked := \<not> checked sw\<rparr>) s) = s"
  by (cases w) simp_all

lemma toggle_fields:
  assumes "isConnected s"
  shows "currentCommand (toggleSwitch w s) = requestId (Toggle w) s"
    and "commandInput (toggleSwitch w s) = map_option (\<lambda>_. requestId (Toggle w) s) (commandInput s)"
    and "waitingForAcknowledgment (toggleSwitch w s)"
    and "isConnected (toggleSwitch w s)"
    and "commandButtons (toggleSwitch w s) = map (\<lambda>btn. btn\<lparr>btn_disabled := True\<rparr>) (commandButtons s)"
    and "sw_disabled (switchOf (otherSwitchId w) (toggleSwitch w s))"
    and "switchOf w (toggleSwitch w s) = (switchOf w s)\<lparr>checked := \<not> checked (switchOf w s)\<rparr>"
  using assms change_fields[of "updateSwitch w (\<lambda>sw. sw\<lparr>checked := \<not> checked sw\<rparr>) s" w]
  by (simp_all add: toggleSwitch_def)

lemma click_idle:
  "\<not> i < length (commandButtons s) \<or> \<not> isConnected s \<Longrightarrow> handleCommandClick i s = s"
  by (auto simp add: handleCommandClick_def)

lemma update_connected: "isConnected (handleConnectionStatusUpdate c err s) = c"
  by (simp add: handleConnectionStatusUpdate_def emit_def Let_def split: option.split)

lemma ack_fields:
  "currentCommand (handleAcknowledgment s) = 0"
  "commandInput (handleAcknowledgment s) = map_option (\<lambda>_. 0) (commandInput s)"
  "commandButtons (handleAcknowledgment s) =
     map (\<lambda>btn. btn\<lparr>active_command := False, btn_disabled := False\<rparr>) (commandButtons s)"
  "\<not> waitingForAcknowledgment (handleAcknowledgment s)"
  "isConnected (handleAcknowledgment s) = isConnected s"
  by (simp_all add: handleAcknowledgment_def clearCommand_def setCommand_def
      setWaitingForAcknowledgment_def enableAll_def enableSwitch_def enableAllButtons_def
      clearActiveButtons_def Let_def)

lemma issue_fields:
  assumes "isConnected s" and "issuable a s"
  shows "currentCommand (issue a s) = requestId a s"
    and "commandInput (issue a s) = map_option (\<lambda>_. requestId a s) (commandInput s)"
    and "waitingForAcknowledgment (issue a s)"
  using assms by (cases a; simp add: click_fields toggle_fields)+


lemma click_keeps_own:
  assumes "isConnected s" and "i < length (commandButtons s)"
  shows "btn_disabled (commandButtons (handleCommandClick i s) ! i) = btn_disabled (commandButtons s ! i)"
  using assms by (simp add: click_buttons length_indexed nth_indexed)

subsection \<open>A request never re-enables a control\<close>

lemma issue_length: "length (commandButtons (issue a s)) = length (commandButtons s)"
proof (cases "isConnected s")
  case True
  show ?thesis
  proof (cases a)
    case (Click i)
    with True show ?thesis
      by (cases "i < length (commandButtons s)")
         (simp_all add: click_buttons length_indexed click_idle)
  next
    case (Toggle w)
    with True show ?thesis by (simp add: toggle_fields)
  qed
next
  case False
  then show ?thesis
    by (cases a) (simp_all add: handleCommandClick_def toggleSwitch_def handleSwitchChange_def flip_twice)
qed

lemma issue_connected: "isConnected (issue a s) = isConnected s"
proof (cases "isConnected s")
  case True
  show ?thesis
  proof (cases a)
    case (Click i)
    with True show ?thesis
      by (cases "i < length (commandButtons s)")
         (simp_all add: click_fields click_idle)
  next
    case (Toggle w)
    with True show ?thesis by (simp add: toggle_fields)
  qed
next
  case False
  then show ?thesis
    by (cases a) (simp_all add: handleCommandClick_def toggleSwitch_def handleSwitchChange_def flip_twice)
qed




lemma flag_update_frame:
  "commandButtons (handleConnectionStatusUpdate c err s) = commandButtons s"
  "driverSwitch (handleConnectionStatusUpdate c err s) = driverSwitch s"
  "servoSwitch (handleConnectionStatusUpdate c err s) = servoSwitch s"
  by (simp_all add: handleConnectionStatusUpdate_def emit_def Let_def split: option.split)

lemma disableAll_frame:
  "commandButtons (disableAll s) = commandButtons s"
  "sw_disabled (switchOf v (disableAll s))"
  by (cases v; simp add: disableAll_def disableSwitch_def)+

lemma enableAll_frame:
  "commandButtons (enableAll s) = commandButtons s"
  "waitingForAcknowledgment (enableAll s) = waitingForAcknowledgment s"
  "currentCommand (enableAll s) = currentCommand s"
  "isConnected s \<Longrightarrow> \<not> sw_disabled (switchOf v (enableAll s))"
  by (cases v; simp add: enableAll_def enableSwitch_def Let_def)+

lemma notified_frame:
  "commandButtons (handleConnectionStatus c s) = commandButtons s"
  by (simp add: handleConnectionStatus_def enableAll_frame disableAll_frame)

lemma step_length: "length (commandButtons (step e s)) = length (commandButtons s)"
  by (cases e)
     (simp_all add: issue_length flag_update_frame disableAll_frame enableAll_frame notified_frame)



lemma run_length: "length (commandButtons (run steps s)) = length (commandButtons s)"
  unfolding run_def by (induction steps arbitrary: s) (simp_all add: step_length)



subsection \<open>The example states, evaluated\<close>

lemma examplePending_eval:
  "examplePending = examplePanel\<lparr>waitingForAcknowledgment := True, currentCommand := 5,
      commandButtons :=
       [\<lparr>btn_cmd = 5, btn_name = Some ''Start Experiment'', btn_text = ''Start'',
          btn_disabled = False, active_command = True\<rparr>,
        \<lparr>btn_cmd = 7, btn_name = None, btn_text = ''Stop'',
          btn_disabled = True, active_command = False\<rparr>,
        \<lparr>btn_cmd = 12, btn_name = Some ''Command 12'', btn_text = ''Cmd 12'',
          btn_disabled = True, active_command = False\<rparr>],
      driverSwitch := \<lparr>checked = False, sw_disabled = True, sw_cmdOn = 1, sw_cmdOff = 2,
                       sw_name = ''Driver Power''\<rparr>,
      servoSwitch := \<lparr>checked = False, sw_disabled = True, sw_cmdOn = 3, sw_cmdOff = 4,
                      sw_name = ''Servo Module''\<rparr>,
      driverGroup := Some \<lparr>class_disabled = True, class_waiting_ack = False\<rparr>,
      servoGroup := Some \<lparr>class_disabled = True, class_waiting_ack = False\<rparr>,
      loadingIcon := Some ''inline-block'', commandInput := Some 5,
      cmdDisplay := Some (5, ''Start Experiment''),
      emitted := [COMMAND_SET 5 ''Start Experiment'' None]\<rparr>"
  by (simp add: examplePending_def examplePanel_def exampleButtons_def panel_defs commandNameOf_def Let_def indexed_def upt_rec)

subsection \<open>Issuing while disconnected\<close>

text \<open>
  Claim C9. While \<open>isConnected\<close> is false, the click listener of a command button returns
  the state as it was. The change listener of a power switch leaves \<open>currentCommand\<close>,
  \<open>waitingForAcknowledgment\<close>, every button and the \<open>disabled\<close> property of both switches
  as they were and inverts \<open>checked\<close> of its switch; the browser has moved the switch
  before the listener runs, so the operator's toggle as a whole puts the switch back where
  it was and changes nothing.
\<close>

theorem disconnected_issue_is_noop:
  assumes "\<not> isConnected s"
  shows "handleCommandClick i s = s \<and>
         handleSwitchChange w s = updateSwitch w (\<lambda>sw. sw\<lparr>checked := \<not> checked sw\<rparr>) s \<and>
         currentCommand (handleSwitchChange w s) = currentCommand s \<and>
         waitingForAcknowledgment (handleSwitchChange w s) = waitingForAcknowledgment s \<and>
         commandButtons (handleSwitchChange w s) = commandButtons s \<and>
         sw_disabled (driverSwitch (handleSwitchChange w s)) = sw_disabled (driverSwitch s) \<and>
         sw_disabled (servoSwitch (handleSwitchChange w s)) = sw_disabled (servoSwitch s) \<and>
         checked (switchOf w (handleSwitchChange w s)) = (\<not> checked (switchOf w s)) \<and>
         toggleSwitch w s = s"
proof -
  have change: "handleSwitchChange w s = updateSwitch w (\<lambda>sw. sw\<lparr>checked := \<not> checked sw\<rparr>) s"
    using assms by (simp add: handleSwitchChange_def)
  have "toggleSwitch w s = s"
    using assms by (simp add: toggleSwitch_def handleSwitchChange_def flip_twice)
  moreover have "handleCommandClick i s = s"
    using assms by (simp add: click_idle)
  moreover have "sw_disabled (driverSwitch (handleSwitchChange w s)) = sw_disabled (driverSwitch s)"
    "sw_disabled (servoSwitch (handleSwitchChange w s)) = sw_disabled (servoSwitch s)"
    unfolding change by (cases w; simp)+
  ultimately show ?thesis
    using change by simp
qed

theorem disconnected_issue_is_noop_witness:
  "\<not> isConnected exampleDisconnected \<and>
   handleCommandClick 1 exampleDisconnected = exampleDisconnected \<and>
   checked (switchOf Servo (handleSwitchChange Servo exampleDisconnected)) = (\<not> checked (switchOf Servo exampleDisconnected)) \<and>
   toggleSwitch Servo exampleDisconnected = exampleDisconnected"
proof -
  have h: "\<not> isConnected exampleDisconnected"
    by (simp add: exampleDisconnected_def)
  from disconnected_issue_is_noop[OF h, of 1 Servo] h show ?thesis
    by simp
qed

subsection \<open>Acknowledgment\<close>

lemma ack_switches:
  "isConnected s \<Longrightarrow> \<not> sw_disabled (switchOf v (handleAcknowledgment s))"
  "\<not> isConnected s \<Longrightarrow> switchOf v (handleAcknowledgment s) = switchOf v s"
  by (cases v; simp add: handleAcknowledgment_def clearCommand_def setCommand_def
      setWaitingForAcknowledgment_def enableAll_def enableSwitch_def enableAllButtons_def
      clearActiveButtons_def Let_def)+

text \<open>
  Claim C1, as amended. \<open>handleAcknowledgment\<close> resets \<open>currentCommand\<close> and the input
  \<open>int-9\<close> to 0, removes \<open>active-command\<close> from every command button, re-enables every
  command button and clears \<open>waitingForAcknowledgment\<close>. It re-enables both power switches
  if \<open>isConnected\<close> is true when it runs, as it is when it directly follows a request
  issued while connected; if \<open>isConnected\<close> is false when it runs, it leaves both power
  switches exactly as they were.
\<close>

theorem acknowledgment_resets:
  "currentCommand (handleAcknowledgment s) = 0 \<and>
   commandInput (handleAcknowledgment s) = map_option (\<lambda>_. 0) (commandInput s) \<and>
   length (commandButtons (handleAcknowledgment s)) = length (commandButtons s) \<and>
   (\<forall>btn\<in>set (commandButtons (handleAcknowledgment s)). \<not> active_command btn \<and> \<not> btn_disabled btn) \<and>
   \<not> waitingForAcknowledgment (handleAcknowledgment s) \<and>
   (isConnected s \<longrightarrow>
      \<not> sw_disabled (driverSwitch (handleAcknowledgment s)) \<and>
      \<not> sw_disabled (servoSwitch (handleAcknowledgment s))) \<and>
   (\<not> isConnected s \<longrightarrow>
      driverSwitch (handleAcknowledgment s) = driverSwitch s \<and>
      servoSwitch (handleAcknowledgment s) = servoSwitch s) \<and>
   (isConnected t \<and> issuable a t \<longrightarrow>
      waitingForAcknowledgment (issue a t) \<and>
      currentCommand (issue a t) = requestId a t \<and>
      isConnected (issue a t) \<and>
      \<not> sw_disabled (driverSwitch (handleAcknowledgment (issue a t))) \<and>
      \<not> sw_disabled (servoSwitch (handleAcknowledgment (issue a t))))"
proof -
  have buttons: "\<forall>btn\<in>set (commandButtons (handleAcknowledgment s)).
      \<not> active_command btn \<and> \<not> btn_disabled btn"
    by (simp add: ack_fields)
  have on: "isConnected s \<longrightarrow>
      \<not> sw_disabled (driverSwitch (handleAcknowledgment s)) \<and>
      \<not> sw_disabled (servoSwitch (handleAcknowledgment s))"
    using ack_switches(1)[of s Driver] ack_switches(1)[of s Servo] by simp
  have off: "\<not> isConnected s \<longrightarrow>
      driverSwitch (handleAcknowledgment s) = driverSwitch s \<and>
      servoSwitch (handleAcknowledgment s) = servoSwitch s"
    using ack_switches(2)[of s Driver] ack_switches(2)[of s Servo] by simp
  have direct: "isConnected t \<and> issuable a t \<longrightarrow>
      waitingForAcknowledgment (issue a t) \<and>
      currentCommand (issue a t) = requestId a t \<and>
      isConnected (issue a t) \<and>
      \<not> sw_disabled (driverSwitch (handleAcknowledgment (issue a t))) \<and>
      \<not> sw_disabled (servoSwitch (handleAcknowledgment (issue a t)))"
  proof
    assume h: "isConnected t \<and> issuable a t"
    then have c: "isConnected (issue a t)"
      by (simp add: issue_connected)
    from h have "waitingForAcknowledgment (issue a t)" and "currentCommand (issue a t) = requestId a t"
      by (simp_all add: issue_fields)
    with c ack_switches(1)[OF c, of Driver] ack_switches(1)[OF c, of Servo]
    show "waitingForAcknowledgment (issue a t) \<and>
      currentCommand (issue a t) = requestId a t \<and>
      isConnected (issue a t) \<and>
      \<not> sw_disabled (driverSwitch (handleAcknowledgment (issue a t))) \<and>
      \<not> sw_disabled (servoSwitch (handleAcknowledgment (issue a t)))"
      by simp
  qed
  from buttons on off direct show ?thesis
    by (simp add: ack_fields)
qed

theorem acknowledgment_resets_witness:
  "isConnected examplePanel \<and> issuable (Click 0) examplePanel \<and>
   issue (Click 0) examplePanel = examplePending \<and>
   waitingForAcknowledgment examplePending \<and>
   currentCommand examplePending = 5 \<and>
   currentCommand (handleAcknowledgment examplePending) = 0 \<and>
   \<not> waitingForAcknowledgment (handleAcknowledgment examplePending) \<and>
   \<not> sw_disabled (driverSwitch (handleAcknowledgment examplePending)) \<and>
   \<not> sw_disabled (servoSwitch (handleAcknowledgment examplePending)) \<and>
   \<not> isConnected exampleLostWhilePending \<and>
   driverSwitch (handleAcknowledgment exampleLostWhilePending) =
     driverSwitch exampleLostWhilePending \<and>
   servoSwitch (handleAcknowledgment exampleLostWhilePending) =
     servoSwitch exampleLostWhilePending"
proof -
  have h: "isConnected examplePanel" "issuable (Click 0) examplePanel"
    "requestId (Click 0) examplePanel = 5"
    by (simp_all add: examplePanel_def exampleButtons_def)
  have p: "issue (Click 0) examplePanel = examplePending"
    by (simp add: examplePending_def)
  have l: "\<not> isConnected exampleLostWhilePending"
    by (simp add: exampleLostWhilePending_def update_connected)
  from acknowledgment_resets[of examplePending examplePanel "Click 0"]
    acknowledgment_resets[of exampleLostWhilePending examplePanel "Click 0"] h p l
  show ?thesis
    by simp
qed

text \<open>
  Claim C1 as written, with both switches re-enabled in every case, fails when the
  connection is lost while command 5 is pending: \<open>handleCommandClick\<close>, then
  \<open>ConnectionManager.handleConnectionStatusUpdate\<close> with \<open>connected = false\<close>, then the
  acknowledgment, which the comparison of section 4.5 triggers for the echo 5. The
  register is reset and both switches are still disabled.
\<close>

theorem switches_stay_disabled_counterexample:
  "isConnected examplePanel \<and>
   exampleLostWhilePending =
     handleConnectionStatusUpdate False None (handleCommandClick 0 examplePanel) \<and>
   waitingForAcknowledgment exampleLostWhilePending \<and>
   currentCommand exampleLostWhilePending = 5 \<and>
   onStatusSnapshot 5 exampleLostWhilePending = handleAcknowledgment exampleLostWhilePending \<and>
   sw_disabled (driverSwitch (handleAcknowledgment exampleLostWhilePending)) \<and>
   sw_disabled (servoSwitch (handleAcknowledgment exampleLostWhilePending)) \<and>
   currentCommand (handleAcknowledgment exampleLostWhilePending) = 0"
proof -
  have e: "exampleLostWhilePending =
     handleConnectionStatusUpdate False None (handleCommandClick 0 examplePanel)"
    by (simp add: exampleLostWhilePending_def examplePending_def)
  have w: "waitingForAcknowledgment exampleLostWhilePending"
    "currentCommand exampleLostWhilePending = 5"
    "\<not> isConnected exampleLostWhilePending"
    "sw_disabled (driverSwitch exampleLostWhilePending)"
    "sw_disabled (servoSwitch exampleLostWhilePending)"
    by (simp_all add: exampleLostWhilePending_def examplePending_eval examplePanel_def
        handleConnectionStatusUpdate_def emit_def)
  have d: "sw_disabled (driverSwitch (handleAcknowledgment exampleLostWhilePending))"
    "sw_disabled (servoSwitch (handleAcknowledgment exampleLostWhilePending))"
    using ack_switches(2)[OF w(3), of Driver] ack_switches(2)[OF w(3), of Servo] w(4,5)
    by simp_all
  from e w d show ?thesis
    by (simp add: onStatusSnapshot_def ack_fields examplePanel_def)
qed

subsection \<open>Sticky requests\<close>





lemma mismatch_ignored:
  "phase e = Pending request \<Longrightarrow> echo \<noteq> req_id request \<Longrightarrow> statusUpdated policy echo e = e"
  by (simp add: statusUpdated_def)



subsection \<open>Superseding\<close>

text \<open>
  Claim C4. Two requests issued one after the other while connected, with no
  acknowledgment in between: after the second the panel waits for an acknowledgment, the
  register and the input \<open>int-9\<close> hold the id of the second request, and an echo other than
  that id (the id of the first request, when the two differ) produces no transition.
\<close>

theorem second_request_supersedes:
  assumes "isConnected s" and "issuable a1 s" and "issuable a2 s"
  shows "currentCommand (issue a1 s) = requestId a1 s \<and>
         waitingForAcknowledgment (issue a2 (issue a1 s)) \<and>
         currentCommand (issue a2 (issue a1 s)) = requestId a2 (issue a1 s) \<and>
         commandInput (issue a2 (issue a1 s)) = map_option (\<lambda>_. requestId a2 (issue a1 s)) (commandInput s) \<and>
         (\<forall>echo. echo \<noteq> requestId a2 (issue a1 s) \<longrightarrow>
            onStatusSnapshot echo (issue a2 (issue a1 s)) = issue a2 (issue a1 s)) \<and>
         (requestId a1 s \<noteq> requestId a2 (issue a1 s) \<longrightarrow>
            onStatusSnapshot (requestId a1 s) (issue a2 (issue a1 s)) = issue a2 (issue a1 s))"
proof -
  have c1: "isConnected (issue a1 s)"
    using assms(1) by (simp add: issue_connected)
  have i2: "issuable a2 (issue a1 s)"
    using assms(3) by (cases a2) (simp_all add: issue_length)
  note f1 = issue_fields[OF assms(1,2)]
  note f2 = issue_fields[OF c1 i2]
  have "commandInput (issue a2 (issue a1 s)) = map_option (\<lambda>_. requestId a2 (issue a1 s)) (commandInput s)"
    by (simp add: f1 f2 option.map_comp comp_def)
  then show ?thesis
    by (simp add: f1 f2 onStatusSnapshot_def)
qed

theorem second_request_supersedes_witness:
  "isConnected examplePanel \<and> issuable (Toggle Driver) examplePanel \<and>
   currentCommand (issue (Toggle Driver) examplePanel) = 1 \<and>
   currentCommand (issue (Toggle Driver) (issue (Toggle Driver) examplePanel)) = 2 \<and>
   waitingForAcknowledgment (issue (Toggle Driver) (issue (Toggle Driver) examplePanel)) \<and>
   onStatusSnapshot 1 (issue (Toggle Driver) (issue (Toggle Driver) examplePanel))
     = issue (Toggle Driver) (issue (Toggle Driver) examplePanel)"
proof -
  have h: "isConnected examplePanel" "issuable (Toggle Driver) examplePanel"
    by (simp_all add: examplePanel_def)
  have r1: "requestId (Toggle Driver) examplePanel = 1"
    by (simp add: examplePanel_def)
  have r2: "requestId (Toggle Driver) (issue (Toggle Driver) examplePanel) = 2"
    by (simp add: examplePanel_def toggleSwitch_def handleSwitchChange_def disableCommandButtons_def
        disableSwitch_def setWaitingForAcknowledgment_def setCommand_def emit_def Let_def)
  from second_request_supersedes[OF h(1) h(2) h(2)] h r1 r2 show ?thesis
    by simp
qed

subsection \<open>Controls disabled by a request\<close>





subsection \<open>Power switches while disconnected\<close>

lemma enableAll_inv: "switchesOffWhileDisconnected s \<Longrightarrow> switchesOffWhileDisconnected (enableAll s)"
  by (simp add: switchesOffWhileDisconnected_def enableAll_def enableSwitch_def Let_def)

lemma disableAll_off:
  "sw_disabled (driverSwitch (disableAll s)) \<and> sw_disabled (servoSwitch (disableAll s)) \<and>
   isConnected (disableAll s) = isConnected s"
  by (simp add: disableAll_def disableSwitch_def)

lemma disableAll_inv: "switchesOffWhileDisconnected (disableAll s)"
  by (simp add: switchesOffWhileDisconnected_def disableAll_off)

lemma status_inv: "switchesOffWhileDisconnected s \<Longrightarrow> switchesOffWhileDisconnected (handleConnectionStatus c s)"
  by (simp add: handleConnectionStatus_def enableAll_inv disableAll_inv)

lemma enableAll_connected: "isConnected (enableAll s) = isConnected s"
  by (simp add: enableAll_def enableSwitch_def Let_def)

lemma changed_inv: "switchesOffWhileDisconnected (connectionStatusChanged c err s)"
proof (cases c)
  case True
  then show ?thesis
    by (simp add: switchesOffWhileDisconnected_def connectionStatusChanged_def
        handleConnectionStatus_def enableAll_connected update_connected)
next
  case False
  then show ?thesis
    by (simp add: connectionStatusChanged_def handleConnectionStatus_def disableAll_inv)
qed

lemma applySwitchOp_inv:
  "switchesOffWhileDisconnected s \<Longrightarrow> switchesOffWhileDisconnected (applySwitchOp op s)"
  by (cases op) (simp_all add: enableAll_inv disableAll_inv status_inv changed_inv)

lemma applySwitchOps_inv:
  "switchesOffWhileDisconnected s \<Longrightarrow> switchesOffWhileDisconnected (applySwitchOps ops s)"
  unfolding applySwitchOps_def
  by (induction ops arbitrary: s) (simp_all add: applySwitchOp_inv)

text \<open>
  Claim C10. If the switches are disabled whenever the panel is disconnected, that remains
  so in every state reached by \<open>enableAll\<close>, \<open>disableAll\<close>, \<open>handleConnectionStatus\<close> and a
  change of the connection flag with its notification. \<open>enableAll\<close> changes nothing while
  \<open>isConnected\<close> is false, and every transition to disconnected leaves both switches
  disabled.
\<close>

theorem disconnected_switches_are_disabled:
  "(switchesOffWhileDisconnected s0 \<longrightarrow> switchesOffWhileDisconnected (applySwitchOps ops s0)) \<and>
   (\<not> isConnected s \<longrightarrow> enableAll s = s) \<and>
   sw_disabled (driverSwitch (handleConnectionStatus False s)) \<and>
   sw_disabled (servoSwitch (handleConnectionStatus False s)) \<and>
   \<not> isConnected (connectionStatusChanged False err s) \<and>
   sw_disabled (driverSwitch (connectionStatusChanged False err s)) \<and>
   sw_disabled (servoSwitch (connectionStatusChanged False err s))"
proof (intro conjI impI)
  assume "switchesOffWhileDisconnected s0"
  then show "switchesOffWhileDisconnected (applySwitchOps ops s0)"
    by (rule applySwitchOps_inv)
next
  assume "\<not> isConnected s"
  then show "enableAll s = s"
    by (simp add: enableAll_def)
qed (simp_all add: handleConnectionStatus_def disableAll_off connectionStatusChanged_def
      update_connected)

theorem disconnected_switches_are_disabled_witness:
  "switchesOffWhileDisconnected examplePanel \<and>
   \<not> isConnected exampleDisconnected \<and> enableAll exampleDisconnected = exampleDisconnected \<and>
   \<not> isConnected (applySwitchOps exampleSwitchOps examplePanel) \<and>
   switchesOffWhileDisconnected (applySwitchOps exampleSwitchOps examplePanel) \<and>
   sw_disabled (driverSwitch (applySwitchOps exampleSwitchOps examplePanel)) \<and>
   sw_disabled (servoSwitch (applySwitchOps exampleSwitchOps examplePanel))"
proof -
  have h: "switchesOffWhileDisconnected examplePanel"
    by (simp add: switchesOffWhileDisconnected_def examplePanel_def)
  have d: "\<not> isConnected (applySwitchOps exampleSwitchOps examplePanel)"
    by (simp add: applySwitchOps_def exampleSwitchOps_def connectionStatusChanged_def
        handleConnectionStatus_def enableAll_connected disableAll_off update_connected)
  have e: "\<not> isConnected exampleDisconnected"
    by (simp add: exampleDisconnected_def)
  from disconnected_switches_are_disabled[of examplePanel exampleSwitchOps exampleDisconnected]
    h d e
  show ?thesis
    by (simp add: switchesOffWhileDisconnected_def)
qed

section \<open>Inbound decode\<close>

lemma length_decodeFlags: "length (decodeFlags bytes) = 8 * length bytes"
  by (induction bytes) (simp_all add: decodeFlags_def)

lemma length_decodeIntegers: "length (decodeIntegers bytes) = length bytes div 2"
  by (induction bytes rule: decodeIntegers.induct) simp_all

lemma decodeIntegers_bound: "\<forall>v\<in>set (decodeIntegers bytes). v < 65536"
proof (induction bytes rule: decodeIntegers.induct)
  case (1 hi lo rest)
  have "unat hi < 256" "unat lo < 256"
    using unsigned_less[of hi] unsigned_less[of lo] by simp_all
  then have "unat hi * 256 + unat lo < 65536" by simp
  with 1 show ?case by simp
qed simp_all

lemma exampleFrame_decoded:
  "decodeStatus exampleFrame =
     Inr \<lparr>flags =
            [False, True, True, True, False, False, False, False,
             False, False, False, False, False, False, False, False,
             True, True, True, True, True, True, True, True,
             True, False, False, False, False, False, False, False,
             False, False, False, False, False, False, False, True],
          integers = [1, 256, 65535, 0, 0, 0, 0, 0, 0, 5]\<rparr>"
  by (simp add: decodeStatus_def exampleFrame_def decodeFlags_def upt_rec)

text \<open>
  Claim C6. A buffer of exactly 26 bytes decodes to a status snapshot with 40 flags and 10
  integers, each below 65536; a buffer of any other length gives \<open>MalformedFrame\<close> and no
  snapshot; so decoding succeeds if and only if the length is 26.
\<close>

theorem decode_iff_26:
  "(length buf = 26 \<longrightarrow>
      (\<exists>snap. decodeStatus buf = Inr snap \<and> length (flags snap) = 40 \<and>
              length (integers snap) = 10 \<and> (\<forall>v\<in>set (integers snap). v < 65536))) \<and>
   (length buf \<noteq> 26 \<longrightarrow> decodeStatus buf = Inl MalformedFrame) \<and>
   ((\<exists>snap. decodeStatus buf = Inr snap) \<longleftrightarrow> length buf = 26)"
  by (simp add: decodeStatus_def length_decodeFlags length_decodeIntegers decodeIntegers_bound)

theorem decode_iff_26_witness:
  "length exampleFrame = 26 \<and>
   decodeStatus exampleFrame =
     Inr \<lparr>flags =
            [False, True, True, True, False, False, False, False,
             False, False, False, False, False, False, False, False,
             True, True, True, True, True, True, True, True,
             True, False, False, False, False, False, False, False,
             False, False, False, False, False, False, False, True],
          integers = [1, 256, 65535, 0, 0, 0, 0, 0, 0, 5]\<rparr> \<and>
   length (take 25 exampleFrame) \<noteq> 26 \<and>
   decodeStatus (take 25 exampleFrame) = Inl MalformedFrame"
proof -
  have a: "length exampleFrame = 26" and b: "length (take 25 exampleFrame) \<noteq> 26"
    by (simp_all add: exampleFrame_def)
  from decode_iff_26[of "take 25 exampleFrame"] b
  have "decodeStatus (take 25 exampleFrame) = Inl MalformedFrame"
    by blast
  with a b exampleFrame_decoded show ?thesis
    by simp
qed

section \<open>Connection manager\<close>

lemma truthy_simps:
  "truthyString v \<longleftrightarrow> v \<noteq> None \<and> v \<noteq> Some []"
  "truthyNumber n \<longleftrightarrow> n \<noteq> None \<and> n \<noteq> Some 0"
  by (auto simp add: truthyString_def truthyNumber_def split: option.splits)

lemma connect_invalid:
  assumes "invalidSettings protocol settings"
  shows "connect api protocol settings =
           (Inr \<lparr>success = False, message = invalidMessage protocol\<rparr>,
            [CONNECTION_ERROR (invalidMessage protocol)])"
  using assms
  by (cases "protocol = ''tcp''")
     (auto simp add: connect_def connectTCP_def connectUDP_def invalidSettings_def truthy_simps
        invalidMessage_def Let_def)

lemma connect_valid:
  assumes "\<not> invalidSettings protocol settings"
  shows "connect api protocol settings =
     (case underlyingConnect api protocol settings of
        Inr result \<Rightarrow>
          if success result then (Inr result, [CONNECTION_STATUS True])
          else (Inr result, [CONNECTION_ERROR (message result)])
      | Inl Nullish \<Rightarrow> (Inl CannotReadMessage, [])
      | Inl (Thrown None) \<Rightarrow>
          (Inr \<lparr>success = False, message = ''Unknown error''\<rparr>, [CONNECTION_ERROR ''Unknown error''])
      | Inl (Thrown (Some msg)) \<Rightarrow>
          (Inr \<lparr>success = False, message = (if msg = [] then ''Unknown error'' else msg)\<rparr>,
           [CONNECTION_ERROR (if msg = [] then ''Unknown error'' else msg)]))"
  using assms
  by (cases "protocol = ''tcp''")
     (auto simp add: connect_def connectTCP_def connectUDP_def invalidSettings_def truthy_simps
        underlyingConnect_def Let_def split: sum.splits js_thrown.splits option.splits)

lemma connect_rejects_iff:
  "(\<exists>e. fst (connect api protocol settings) = Inl e) \<longleftrightarrow>
     \<not> invalidSettings protocol settings \<and> underlyingConnect api protocol settings = Inl Nullish"
proof (cases "invalidSettings protocol settings")
  case True
  then show ?thesis
    by (simp add: connect_invalid)
next
  case False
  then show ?thesis
    by (auto simp add: connect_valid split: sum.splits js_thrown.splits option.splits)
qed




section \<open>Settings manager\<close>

declare showNat.simps [simp del]

lemma digitChar_inj: "a < 10 \<Longrightarrow> b < 10 \<Longrightarrow> digitChar a = digitChar b \<Longrightarrow> a = b"
proof -
  assume a: "a < 10" and b: "b < 10" and e: "digitChar a = digitChar b"
  have d: "distinct ''0123456789''" by simp
  have l: "length ''0123456789'' = 10" by simp
  from e have "''0123456789'' ! a = ''0123456789'' ! b" by (simp only: digitChar_def)
  with d a b l show "a = b" by (simp only: nth_eq_iff_index_eq)
qed

lemma showNat_not_Nil: "showNat n \<noteq> []"
  by (subst showNat.simps) simp

lemma showNat_inj: "showNat m = showNat n \<Longrightarrow> m = n"
proof (induction m arbitrary: n rule: showNat.induct)
  case (1 m)
  show ?case
  proof (cases "m < 10")
    case True
    then have m: "showNat m = [digitChar m]" by (subst showNat.simps) simp
    show ?thesis
    proof (cases "n < 10")
      case True
      then have "showNat n = [digitChar n]" by (subst showNat.simps) simp
      with m "1.prems" have "digitChar m = digitChar n" by simp
      with \<open>m < 10\<close> True show ?thesis by (rule digitChar_inj)
    next
      case False
      then have "showNat n = showNat (n div 10) @ [digitChar (n mod 10)]"
        by (subst showNat.simps) simp
      with m "1.prems" showNat_not_Nil[of "n div 10"] show ?thesis
        by (simp add: Cons_eq_append_conv)
    qed
  next
    case False
    then have m: "showNat m = showNat (m div 10) @ [digitChar (m mod 10)]"
      by (subst showNat.simps) simp
    show ?thesis
    proof (cases "n < 10")
      case True
      then have "showNat n = [digitChar n]" by (subst showNat.simps) simp
      with m "1.prems" showNat_not_Nil[of "m div 10"] show ?thesis
        by (simp add: append_eq_Cons_conv)
    next
      case n: False
      then have "showNat n = showNat (n div 10) @ [digitChar (n mod 10)]"
        by (subst showNat.simps) simp
      with m "1.prems" have q: "showNat (m div 10) = showNat (n div 10)"
        and r: "digitChar (m mod 10) = digitChar (n mod 10)" by simp_all
      from "1.IH"[OF False q] have "m div 10 = n div 10" .
      moreover have "m mod 10 = n mod 10"
        using r by (intro digitChar_inj) simp_all
      ultimately show ?thesis
        by (metis div_mult_mod_eq)
    qed
  qed
qed

lemma intKey_eq_iff [simp]: "intKey i = intKey j \<longleftrightarrow> i = j"
  by (auto simp add: intKey_def dest: showNat_inj)

lemma intKey_other [simp]:
  "intKey i \<noteq> ''protocol''" "intKey i \<noteq> ''tcp-host''" "intKey i \<noteq> ''tcp-port''"
  "intKey i \<noteq> ''tcp-client-port''" "intKey i \<noteq> ''udp-listening-port''"
  "intKey i \<noteq> ''udp-target-host''" "intKey i \<noteq> ''udp-target-port''"
  "intKey i \<noteq> ''auto-send-enabled''" "intKey i \<noteq> ''debug-mode-enabled''"
  "intKey i \<noteq> ''send-latency-ms''"
  by (simp_all add: intKey_def)


lemma setItem_simps [simp]:
  "localStorage (setItem key v s) = (localStorage s)(key \<mapsto> v)"
  "intInputs (setItem key v s) = intInputs s"
  by (simp_all add: setItem_def)

lemma saveInput_simps [simp]:
  "intInputs (saveInput key input s) = intInputs s"
  "k \<noteq> key \<Longrightarrow> localStorage (saveInput key input s) k = localStorage s k"
  by (simp_all add: saveInput_def split: option.split)

lemma saveIntegerParameter_inputs [simp]:
  "intInputs (saveIntegerParameter j s) = intInputs s"
  by (simp add: saveIntegerParameter_def split: option.split)

lemma saveIntegerParameter_storage:
  "localStorage (saveIntegerParameter j s) k =
     (if k = intKey j \<and> j \<noteq> 9 \<and> intInputs s j \<noteq> None then intInputs s j else localStorage s k)"
  by (auto simp add: saveIntegerParameter_def split: option.split)

lemma fold_save_inputs [simp]:
  "intInputs (fold saveIntegerParameter xs s) = intInputs s"
  by (induction xs arbitrary: s) simp_all

lemma fold_save_storage:
  "localStorage (fold saveIntegerParameter xs s) (intKey i) =
     (if i \<in> set xs \<and> i \<noteq> 9 \<and> intInputs s i \<noteq> None then intInputs s i
      else localStorage s (intKey i))"
proof (induction xs arbitrary: s)
  case Nil
  show ?case by simp
next
  case (Cons x xs)
  show ?case
    by (auto simp add: Cons.IH saveIntegerParameter_storage)
qed

lemma saveSettings_inputs: "intInputs (saveSettings s) = intInputs s"
  by (simp add: saveSettings_def Let_def)

lemma saveSettings_storage:
  "localStorage (saveSettings s) (intKey i) =
     (if i < 16 \<and> i \<noteq> 9 \<and> intInputs s i \<noteq> None then intInputs s i
      else localStorage s (intKey i))"
  by (auto simp add: saveSettings_def Let_def fold_save_storage)

lemma restoreInput_frame:
  assumes "\<And>v t. intInputs (assign v t) = intInputs t"
    and "\<And>v t. localStorage (assign v t) = localStorage t"
  shows "intInputs (restoreInput key input assign s) = intInputs s"
    and "localStorage (restoreInput key input assign s) = localStorage s"
  using assms by (simp_all add: restoreInput_def split: option.split)

lemma loadProtocol_frame:
  assumes "\<forall>f t. callback = Some f \<longrightarrow> intInputs (f t) = intInputs t \<and> localStorage (f t) = localStorage t"
  shows "intInputs (loadProtocol callback s) = intInputs s"
    and "localStorage (loadProtocol callback s) = localStorage s"
  using assms by (auto simp add: loadProtocol_def Let_def split: option.split)

lemma loadToggles_frame [simp]:
  "intInputs (loadAutoSend s) = intInputs s"
  "localStorage (loadAutoSend s) = localStorage s"
  "intInputs (loadDebugMode s) = intInputs s"
  "localStorage (loadDebugMode s) = localStorage s"
  "intInputs (loadSendLatency parseInt s) = intInputs s"
  "localStorage (loadSendLatency parseInt s) = localStorage s"
  by (simp_all add: loadAutoSend_def loadDebugMode_def loadSendLatency_def split: option.split)

lemma loadIntegerParameter_storage [simp]:
  "localStorage (loadIntegerParameter j s) = localStorage s"
  by (simp add: loadIntegerParameter_def split: option.split)

lemma loadIntegerParameter_inputs:
  "intInputs (loadIntegerParameter j s) i =
     (if i = j \<and> j \<noteq> 9 \<and> intInputs s j \<noteq> None \<and> localStorage s (intKey j) \<noteq> None
      then localStorage s (intKey j) else intInputs s i)"
  by (auto simp add: loadIntegerParameter_def split: option.split)

lemma fold_load_storage [simp]:
  "localStorage (fold loadIntegerParameter xs s) = localStorage s"
  by (induction xs arbitrary: s) simp_all

lemma fold_load_inputs:
  "intInputs (fold loadIntegerParameter xs s) i =
     (if i \<in> set xs \<and> i \<noteq> 9 \<and> intInputs s i \<noteq> None \<and> localStorage s (intKey i) \<noteq> None
      then localStorage s (intKey i) else intInputs s i)"
proof (induction xs arbitrary: s)
  case Nil
  show ?case by simp
next
  case (Cons x xs)
  show ?case
    by (auto simp add: Cons.IH loadIntegerParameter_inputs)
qed

lemma loadSettings_frame:
  assumes "\<forall>f t. callback = Some f \<longrightarrow> intInputs (f t) = intInputs t \<and> localStorage (f t) = localStorage t"
  shows "localStorage (loadSettings parseInt callback s) = localStorage s"
    and "intInputs (loadSettings parseInt callback s) i =
     (if i < 16 \<and> i \<noteq> 9 \<and> intInputs s i \<noteq> None \<and> localStorage s (intKey i) \<noteq> None
      then localStorage s (intKey i) else intInputs s i)"
  by (auto simp add: loadSettings_def Let_def fold_load_inputs restoreInput_frame
      loadProtocol_frame[OF assms])

lemma updateProtocolUI_frame:
  "intInputs (updateProtocolUI t) = intInputs t \<and> localStorage (updateProtocolUI t) = localStorage t"
  by (simp add: updateProtocolUI_def)

text \<open>
  Claim C8. For a slot \<open>i\<close> below 16 and a callback that leaves the integer inputs and the
  storage alone: \<open>saveSettings\<close> never writes the key \<open>int-9\<close> and changes no input; where
  the input of slot \<open>i\<close> exists, it stores the input's value under \<open>int-i\<close> if and only if
  \<open>i\<close> is not 9. \<open>loadSettings\<close> never assigns the input \<open>int-9\<close> and changes no stored
  value; where the input of slot \<open>i\<close> exists and a value is stored for it, it puts the
  stored value into the input if and only if \<open>i\<close> is not 9.
\<close>

theorem persistence_skips_command_slot:
  assumes "i < 16"
    and "\<forall>f t. callback = Some f \<longrightarrow>
           intInputs (f t) = intInputs t \<and> localStorage (f t) = localStorage t"
  shows "localStorage (saveSettings s) (intKey 9) = localStorage s (intKey 9) \<and>
         intInputs (saveSettings s) = intInputs s \<and>
         (intInputs s i = Some v \<and> localStorage s (intKey i) \<noteq> Some v \<longrightarrow>
            (localStorage (saveSettings s) (intKey i) = Some v \<longleftrightarrow> i \<noteq> 9)) \<and>
         intInputs (loadSettings parseInt callback s) 9 = intInputs s 9 \<and>
         localStorage (loadSettings parseInt callback s) = localStorage s \<and>
         (intInputs s i \<noteq> None \<and> localStorage s (intKey i) = Some saved \<and>
            intInputs s i \<noteq> Some saved \<longrightarrow>
            (intInputs (loadSettings parseInt callback s) i = Some saved \<longleftrightarrow> i \<noteq> 9))"
  using assms(1)
  by (auto simp add: saveSettings_inputs saveSettings_storage loadSettings_frame[OF assms(2)])

theorem persistence_skips_command_slot_witness:
  "(3::nat) < 16 \<and>
   intInputs examplePage 3 = Some ''42'' \<and> localStorage examplePage (intKey 3) = Some ''7'' \<and>
   localStorage (saveSettings examplePage) (intKey 3) = Some ''42'' \<and>
   localStorage (saveSettings examplePage) (intKey 9) = Some ''13'' \<and>
   intInputs (loadSettings exampleParseInt (Some updateProtocolUI) examplePage) 3 = Some ''7'' \<and>
   intInputs (loadSettings exampleParseInt (Some updateProtocolUI) examplePage) 9 = Some ''42''"
proof -
  have cb: "\<forall>f t. Some updateProtocolUI = Some f \<longrightarrow>
           intInputs (f t) = intInputs t \<and> localStorage (f t) = localStorage t"
    by (simp add: updateProtocolUI_frame)
  have i: "(3::nat) < 16" by simp
  have k: "intKey 3 = ''int-3''" "intKey 9 = ''int-9''"
    by (simp_all add: intKey_def showNat.simps digitChar_def)
  have e: "intInputs examplePage 3 = Some ''42''" "intInputs examplePage 9 = Some ''42''"
    "localStorage examplePage (intKey 3) = Some ''7''"
    "localStorage examplePage (intKey 9) = Some ''13''"
    by (simp_all add: examplePage_def k)
  from persistence_skips_command_slot[OF i cb, of examplePage "''42''" exampleParseInt "''7''"] e i
  show ?thesis
    by simp
qed

end
